theory Spec2Isabelle
  imports Main "HOL-Library.Word"
begin

section \<open>JavaScript strings\<close>

text \<open>
  A JavaScript string is a sequence of UTF-16 code units; \<open>length\<close>, \<open>slice\<close>,
  \<open>split\<close> and \<open>trim\<close> all work on code units. A string is therefore a list of
  16-bit words, and \<open>js\<close> writes an ASCII literal as such a list.
\<close>

type_synonym jschar = "16 word"
type_synonym jsstring = "jschar list"

definition js :: "string \<Rightarrow> jsstring" where
  "js s = map of_char s"

definition newline :: jschar where
  "newline = 0x0A"

text \<open>
  \<open>String.prototype.trim\<close> removes WhiteSpace and LineTerminator code points
  (ECMA-262): TAB, VT, FF, SP, NBSP, ZWNBSP, the Unicode space separators, and LF, CR,
  LS, PS. All of them are single code units.
\<close>

definition isWhiteSpace :: "jschar \<Rightarrow> bool" where
  "isWhiteSpace c \<longleftrightarrow>
     c = 0x09 \<or> c = 0x0A \<or> c = 0x0B \<or> c = 0x0C \<or> c = 0x0D \<or> c = 0x20 \<or> c = 0xA0 \<or>
     c = 0x1680 \<or> (0x2000 \<le> c \<and> c \<le> 0x200A) \<or> c = 0x2028 \<or> c = 0x2029 \<or>
     c = 0x202F \<or> c = 0x205F \<or> c = 0x3000 \<or> c = 0xFEFF"

definition trim :: "jsstring \<Rightarrow> jsstring" where
  "trim s = rev (dropWhile isWhiteSpace (rev (dropWhile isWhiteSpace s)))"

text \<open>\<open>s.split("\n")\<close>: the segments between line feeds; never an empty array.\<close>

fun split_newline :: "jsstring \<Rightarrow> jsstring list" where
  "split_newline [] = [[]]"
| "split_newline (c # cs) =
     (if c = newline then [] # split_newline cs
      else (case split_newline cs of
              [] \<Rightarrow> [[c]]
            | l # ls \<Rightarrow> (c # l) # ls))"

text \<open>\<open>xs.slice(-1)[0] || ""\<close> on an array of strings.\<close>

definition last_or_empty :: "jsstring list \<Rightarrow> jsstring" where
  "last_or_empty xs = (case rev xs of [] \<Rightarrow> [] | x # _ \<Rightarrow> x)"

section \<open>Title Deriver\<close>

definition MAX_TITLE_LENGTH :: nat where
  "MAX_TITLE_LENGTH = 100"

text \<open>
  \<open>getChatTitleFromMessage\<close> (session.ts, lines 169-181), on the text that
  \<open>renderChatMessage\<close> gives for the message.
\<close>

definition titleFromText :: "jsstring \<Rightarrow> jsstring" where
  "titleFromText rendered =
     (let text = last_or_empty (filter (\<lambda>l. trim l \<noteq> []) (split_newline rendered))
      in if length text > MAX_TITLE_LENGTH
         then take (MAX_TITLE_LENGTH - 3) text @ js ''...''
         else text)"

text \<open>
  The words of the specification: a line is blank when it has white space only, and a
  text is its lines joined by line feeds.
\<close>

definition blank :: "jsstring \<Rightarrow> bool" where
  "blank l \<longleftrightarrow> (\<forall>c \<in> set l. isWhiteSpace c)"

fun join_newline :: "jsstring list \<Rightarrow> jsstring" where
  "join_newline [] = []"
| "join_newline [l] = l"
| "join_newline (l # ls) = l @ newline # join_newline ls"

section \<open>Data model\<close>

text \<open>
  \<open>ChatMessage\<close>, \<open>Session\<close> and \<open>SessionMetadata\<close> are declared in the package
  \<open>core\<close>; the fields below are the ones session.ts reads and writes. The content of a
  message is a string or an array of parts, the parts being opaque objects.
\<close>

datatype role = User | Assistant | System | Thinking | Tool

typedecl message_part

datatype message_content = TextContent jsstring | PartsContent "message_part list"

record chat_message =
  role :: role
  content :: message_content

record chat_history_item =
  message :: chat_message

record session_metadata =
  md_sessionId :: jsstring
  md_title :: jsstring
  md_workspaceDirectory :: "jsstring option"

record session =
  sessionId :: jsstring
  title :: jsstring
  workspaceDirectory :: jsstring
  history :: "chat_history_item list"

text \<open>
  \<open>content.toString()\<close>: a string is itself; an array is its elements' \<open>toString\<close>
  joined by commas, and a plain object prints as \<open>[object Object]\<close>.
\<close>

fun join_comma :: "jsstring list \<Rightarrow> jsstring" where
  "join_comma [] = []"
| "join_comma [x] = x"
| "join_comma (x # xs) = x @ js '','' @ join_comma xs"

definition toString :: "message_content \<Rightarrow> jsstring" where
  "toString c =
     (case c of
        TextContent t \<Rightarrow> t
      | PartsContent ps \<Rightarrow> join_comma (map (\<lambda>_. js ''[object Object]'') ps))"

section \<open>Session Store\<close>

text \<open>
  The part of the Redux state the thunks read: \<open>state.session\<close>, the truth value of
  \<open>state.config.config?.disableSessionTitles\<close>, and whether
  \<open>selectSelectedChatModel(state)\<close> finds a model.
\<close>

record session_state =
  session_id :: jsstring
  session_title :: jsstring
  session_history :: "chat_history_item list"
  allSessionMetadata :: "session_metadata list"
  isSessionMetadataLoading :: bool

record root_state =
  session :: session_state
  disableSessionTitles :: bool
  selectedChatModel :: bool

text \<open>
  Modelled from the spec: the constant \<open>NEW_SESSION_TITLE\<close> of core/util/constants is
  not among the sources; the specification calls it the sentinel "new session"
  placeholder, a fixed title that is not the empty string.
\<close>

definition NEW_SESSION_TITLE :: jsstring where
  "NEW_SESSION_TITLE = js ''New Session''"

text \<open>
  Modelled from the spec: the reducers of sessionSlice are not among the sources. The
  specification (sections 2 to 4) describes them as pure mutation actions:
  \<open>newSession\<close> with a session overwrites the active id, title and history with the
  session's, and without one activates a brand-new, untitled, empty session (the first
  argument is the identifier generated for it); \<open>updateSessionMetadata\<close> updates the
  title and workspace of the entry with the given id; \<open>deleteSessionMetadata\<close> removes
  the entry with the given id; \<open>setAllSessionMetadata\<close> replaces the whole collection;
  \<open>setIsSessionMetadataLoading\<close> sets the loading flag.
\<close>

definition newSession :: "jsstring \<Rightarrow> session option \<Rightarrow> session_state \<Rightarrow> session_state" where
  "newSession generated payload s =
     (case payload of
        Some p \<Rightarrow> s\<lparr>session_id := sessionId p, session_title := title p,
                    session_history := history p\<rparr>
      | None \<Rightarrow> s\<lparr>session_id := generated, session_title := NEW_SESSION_TITLE,
                  session_history := []\<rparr>)"

definition updateSessionMetadata ::
  "jsstring \<Rightarrow> jsstring \<Rightarrow> jsstring \<Rightarrow> session_state \<Rightarrow> session_state" where
  "updateSessionMetadata sid t wd s =
     s\<lparr>allSessionMetadata :=
         map (\<lambda>m. if md_sessionId m = sid
                   then m\<lparr>md_title := t, md_workspaceDirectory := Some wd\<rparr>
                   else m)
             (allSessionMetadata s)\<rparr>"

definition deleteSessionMetadata :: "jsstring \<Rightarrow> session_state \<Rightarrow> session_state" where
  "deleteSessionMetadata sid s =
     s\<lparr>allSessionMetadata := filter (\<lambda>m. md_sessionId m \<noteq> sid) (allSessionMetadata s)\<rparr>"

definition setAllSessionMetadata :: "session_metadata list \<Rightarrow> session_state \<Rightarrow> session_state" where
  "setAllSessionMetadata ms s = s\<lparr>allSessionMetadata := ms\<rparr>"

definition setIsSessionMetadataLoading :: "bool \<Rightarrow> session_state \<Rightarrow> session_state" where
  "setIsSessionMetadataLoading b s = s\<lparr>isSessionMetadataLoading := b\<rparr>"

section \<open>Messenger Port\<close>

text \<open>
  \<open>ideMessenger.request\<close> returns a promise. The promise is rejected (the \<open>await\<close>
  throws) or resolved with a value, which for the history operations and the describe
  operation is the tagged object \<open>{status, content}\<close> or \<open>{status, error}\<close>. The value
  of \<open>getWorkspaceDirs\<close> is inspected with \<open>Array.isArray\<close>, so it is kept as what
  it is at run time: an array of paths, or a tagged object.
\<close>

datatype error = Error jsstring

datatype 'a tagged = StatusSuccess 'a | StatusError jsstring

datatype 'a outcome = Resolved 'a | Rejected error

datatype dirs_response = RawArray "jsstring list" | TaggedDirs "jsstring list tagged"

record refresh_args =
  offset :: "nat option"
  limit :: "nat option"
  list_workspaceDirectory :: "jsstring option"

datatype request =
    HistoryLoad jsstring
  | HistoryList refresh_args
  | HistoryDelete jsstring
  | HistorySave session
  | GetWorkspaceDirs
  | ChatDescribe jsstring

text \<open>
  The remote side is a state machine of any state type \<open>'m\<close>: each operation answers
  from the remote state and may change it. \<open>renderChatMessage\<close> (core/util) is an
  external pure function, and \<open>uuid\<close> is the source of identifiers for new sessions.
\<close>

record 'm env =
  historyLoad :: "'m \<Rightarrow> jsstring \<Rightarrow> session tagged outcome \<times> 'm"
  historyList :: "'m \<Rightarrow> refresh_args \<Rightarrow> session_metadata list tagged outcome \<times> 'm"
  historyDelete :: "'m \<Rightarrow> jsstring \<Rightarrow> unit tagged outcome \<times> 'm"
  historySave :: "'m \<Rightarrow> session \<Rightarrow> unit tagged outcome \<times> 'm"
  getWorkspaceDirs :: "'m \<Rightarrow> dirs_response outcome \<times> 'm"
  chatDescribe :: "'m \<Rightarrow> jsstring \<Rightarrow> jsstring option tagged outcome \<times> 'm"
  renderChatMessage :: "chat_message \<Rightarrow> jsstring"
  uuid :: "nat \<Rightarrow> jsstring"

text \<open>
  The world a thunk runs in: the store, the remote state, the requests issued so far
  (oldest first), the thunks dispatched without \<open>await\<close> and not yet run, and the
  number of identifiers generated.
\<close>

record 'm world =
  store :: root_state
  remote :: 'm
  requests :: "request list"
  spawned :: "refresh_args list"
  uuidCounter :: nat

definition send :: "request \<Rightarrow> ('m \<Rightarrow> 'a \<times> 'm) \<Rightarrow> 'm world \<Rightarrow> 'a \<times> 'm world" where
  "send rq answer w =
     (case answer (remote w) of
        (r, m') \<Rightarrow> (r, w\<lparr>remote := m', requests := requests w @ [rq]\<rparr>))"

definition dispatch :: "(session_state \<Rightarrow> session_state) \<Rightarrow> 'm world \<Rightarrow> 'm world" where
  "dispatch action w = w\<lparr>store := (store w)\<lparr>session := action (session (store w))\<rparr>\<rparr>"

definition dispatch_newSession :: "'m env \<Rightarrow> session option \<Rightarrow> 'm world \<Rightarrow> 'm world" where
  "dispatch_newSession env payload w =
     (case payload of
        Some p \<Rightarrow> dispatch (newSession [] (Some p)) w
      | None \<Rightarrow> (dispatch (newSession (uuid env (uuidCounter w)) None) w)
                  \<lparr>uuidCounter := Suc (uuidCounter w)\<rparr>)"

section \<open>Session Orchestrator\<close>

text \<open>
  A thunk made by \<open>createAsyncThunk\<close> never rejects the promise that \<open>dispatch\<close>
  returns: the promise resolves with a fulfilled action (\<open>Inr\<close>, the payload) or a
  rejected action (\<open>Inl\<close>, the error thrown in the body). \<open>unwrapResult\<close> throws the
  error of a rejected action; a caller that awaits without it goes on.
\<close>

text \<open>\<open>getSession\<close>, lines 21-30 (a plain async function: its throw is the caller's).\<close>

definition getSession :: "'m env \<Rightarrow> jsstring \<Rightarrow> 'm world \<Rightarrow> (error + session) \<times> 'm world" where
  "getSession env i w =
     (case send (HistoryLoad i) (\<lambda>m. historyLoad env m i) w of
        (Rejected e, w1) \<Rightarrow> (Inl e, w1)
      | (Resolved (StatusError msg), w1) \<Rightarrow> (Inl (Error msg), w1)
      | (Resolved (StatusSuccess c), w1) \<Rightarrow> (Inr c, w1))"

text \<open>\<open>refreshSessionMetadata\<close>, lines 32-52.\<close>

definition refreshSessionMetadata ::
  "'m env \<Rightarrow> refresh_args \<Rightarrow> 'm world \<Rightarrow> (error + session_metadata list) \<times> 'm world" where
  "refreshSessionMetadata env args w =
     (case send (HistoryList args) (\<lambda>m. historyList env m args) w of
        (Rejected e, w1) \<Rightarrow> (Inl e, w1)
      | (Resolved (StatusError msg), w1) \<Rightarrow> (Inl (Error msg), w1)
      | (Resolved (StatusSuccess c), w1) \<Rightarrow>
          (Inr c, dispatch (setAllSessionMetadata c)
                    (dispatch (setIsSessionMetadataLoading False) w1)))"

text \<open>\<open>updateSession\<close>, lines 74-87. The value of the save request is not looked at.\<close>

definition updateSession :: "'m env \<Rightarrow> session \<Rightarrow> 'm world \<Rightarrow> (error + unit) \<times> 'm world" where
  "updateSession env s w =
     (let w1 = dispatch (updateSessionMetadata (sessionId s) (title s) (workspaceDirectory s)) w
      in case send (HistorySave s) (\<lambda>m. historySave env m s) w1 of
           (Rejected e, w2) \<Rightarrow> (Inl e, w2)
         | (Resolved _, w2) \<Rightarrow>
             (case refreshSessionMetadata env
                     \<lparr>offset = None, limit = None,
                      list_workspaceDirectory = Some (workspaceDirectory s)\<rparr> w2 of
                (_, w3) \<Rightarrow> (Inr (), w3)))"

text \<open>
  The workspace lookup of lines 127-136 and 195-204: the first element when the value
  is an array that is not empty; a rejection is caught and logged.
\<close>

definition firstWorkspaceDir :: "dirs_response outcome \<Rightarrow> jsstring option" where
  "firstWorkspaceDir response =
     (case response of
        Resolved (RawArray (d # _)) \<Rightarrow> Some d
      | _ \<Rightarrow> None)"

text \<open>The first assistant message's \<open>content.toString()\<close>, lines 217-219.\<close>

definition assistantResponse :: "chat_history_item list \<Rightarrow> jsstring option" where
  "assistantResponse hist =
     (case filter (\<lambda>h. role (message h) = Assistant) hist of
        [] \<Rightarrow> None
      | h # _ \<Rightarrow> Some (toString (content (message h))))"

text \<open>The remote title-describe stage, lines 214-236.\<close>

definition describeTitle ::
  "'m env \<Rightarrow> bool \<Rightarrow> root_state \<Rightarrow> 'm world \<Rightarrow> jsstring \<times> 'm world" where
  "describeTitle env generateTitle state w =
     (if \<not> disableSessionTitles state \<and> selectedChatModel state then
        (case assistantResponse (session_history (session state)) of
           None \<Rightarrow> (NEW_SESSION_TITLE, w)
         | Some text \<Rightarrow>
             if text \<noteq> [] \<and> generateTitle then
               (case send (ChatDescribe text) (\<lambda>m. chatDescribe env m text) w of
                  (Resolved (StatusSuccess (Some t)), w1) \<Rightarrow>
                    (if t \<noteq> [] then t else NEW_SESSION_TITLE, w1)
                | (_, w1) \<Rightarrow> (NEW_SESSION_TITLE, w1))
             else (NEW_SESSION_TITLE, w))
      else (NEW_SESSION_TITLE, w))"

definition getChatTitleFromMessage :: "'m env \<Rightarrow> chat_message \<Rightarrow> jsstring" where
  "getChatTitleFromMessage env msg = titleFromText (renderChatMessage env msg)"

text \<open>
  Title resolution, lines 212-253. \<open>state\<close> is the state read at the start of the
  thunk and \<open>first\<close> is \<open>state.session.history[0]\<close>, which exists since the history is
  not empty here; the metadata is read from the store as it is now.
\<close>

definition resolveTitle ::
  "'m env \<Rightarrow> bool \<Rightarrow> root_state \<Rightarrow> chat_history_item \<Rightarrow> 'm world \<Rightarrow> jsstring \<times> 'm world" where
  "resolveTitle env generateTitle state first w =
     (case (if session_title (session state) = NEW_SESSION_TITLE then
              (case describeTitle env generateTitle state w of
                 (t, w1) \<Rightarrow>
                   (if t = NEW_SESSION_TITLE
                    then getChatTitleFromMessage env (message first)
                    else t, w1))
            else (session_title (session state), w)) of
        (t1, w1) \<Rightarrow>
          (let t2 = (if t1 = [] then
                       (case find (\<lambda>m. md_sessionId m = session_id (session state))
                               (allSessionMetadata (session (store w1))) of
                          Some m \<Rightarrow> if md_title m \<noteq> [] then md_title m else t1
                        | None \<Rightarrow> t1)
                     else t1);
               t3 = (if t2 = [] then NEW_SESSION_TITLE else t2)
           in (t3, w1)))"

text \<open>
  The session that \<open>saveCurrentSession\<close> persists, lines 195-260: the workspace
  lookup, the optional new session, the title.
\<close>

definition currentSessionToSave ::
  "'m env \<Rightarrow> bool \<Rightarrow> bool \<Rightarrow> chat_history_item \<Rightarrow> 'm world \<Rightarrow> session \<times> 'm world" where
  "currentSessionToSave env openNewSession generateTitle first w =
     (let state = store w in
      case send GetWorkspaceDirs (getWorkspaceDirs env) w of
        (response, w1) \<Rightarrow>
          (let wd = (case firstWorkspaceDir response of Some d \<Rightarrow> d | None \<Rightarrow> []);
               w2 = (if openNewSession then dispatch_newSession env None w1 else w1)
           in case resolveTitle env generateTitle state first w2 of
                (t, w3) \<Rightarrow>
                  (\<lparr>sessionId = session_id (session state), title = t,
                    workspaceDirectory = wd,
                    history = session_history (session state)\<rparr>, w3)))"

text \<open>\<open>saveCurrentSession\<close>, lines 183-265.\<close>

definition saveCurrentSession ::
  "'m env \<Rightarrow> bool \<Rightarrow> bool \<Rightarrow> 'm world \<Rightarrow> (error + unit) \<times> 'm world" where
  "saveCurrentSession env openNewSession generateTitle w =
     (case session_history (session (store w)) of
        [] \<Rightarrow> (Inr (), w)
      | first # _ \<Rightarrow>
          (case currentSessionToSave env openNewSession generateTitle first w of
             (s, w3) \<Rightarrow>
               (case updateSession env s w3 of
                  (Inl e, w4) \<Rightarrow> (Inl e, w4)
                | (Inr _, w4) \<Rightarrow> (Inr (), w4))))"

text \<open>\<open>loadSession\<close>, lines 92-114.\<close>

definition loadSession ::
  "'m env \<Rightarrow> jsstring \<Rightarrow> bool \<Rightarrow> 'm world \<Rightarrow> (error + unit) \<times> 'm world" where
  "loadSession env sid save w =
     (case (if save then saveCurrentSession env False True w else (Inr (), w)) of
        (Inl e, w1) \<Rightarrow> (Inl e, w1)
      | (Inr _, w1) \<Rightarrow>
          (case getSession env sid w1 of
             (Inl e, w2) \<Rightarrow> (Inl e, w2)
           | (Inr s, w2) \<Rightarrow> (Inr (), dispatch_newSession env (Some s) w2)))"

text \<open>
  The end of \<open>loadLastSession\<close>, lines 156-165, from the action of the refresh: the
  payload of a rejected action is \<open>undefined\<close>, and so is the first element of an
  empty list.
\<close>

definition activateLastSession ::
  "'m env \<Rightarrow> error + session_metadata list \<Rightarrow> 'm world \<Rightarrow> (error + unit) \<times> 'm world" where
  "activateLastSession env metadataResult w =
     (case (case metadataResult of Inr (m # _) \<Rightarrow> Some m | _ \<Rightarrow> None) of
        Some lastSession \<Rightarrow>
          (case getSession env (md_sessionId lastSession) w of
             (Inl e, w1) \<Rightarrow> (Inl e, w1)
           | (Inr s, w1) \<Rightarrow> (Inr (), dispatch_newSession env (Some s) w1))
      | None \<Rightarrow> (Inr (), dispatch_newSession env None w))"

text \<open>
  \<open>loadLastSession\<close>, lines 116-167. The save-current cycle is awaited and its action
  is dropped.
\<close>

definition loadLastSession :: "'m env \<Rightarrow> bool \<Rightarrow> 'm world \<Rightarrow> (error + unit) \<times> 'm world" where
  "loadLastSession env shouldSaveCurrentSession w =
     (let state = store w in
      case send GetWorkspaceDirs (getWorkspaceDirs env) w of
        (response, w1) \<Rightarrow>
          (let wd = firstWorkspaceDir response;
               w2 = (if session_id (session state) \<noteq> [] \<and> shouldSaveCurrentSession
                     then snd (saveCurrentSession env False True w1) else w1)
           in case refreshSessionMetadata env
                     \<lparr>offset = None, limit = Some 1, list_workspaceDirectory = wd\<rparr> w2 of
                (metadataResult, w3) \<Rightarrow> activateLastSession env metadataResult w3))"

text \<open>
  The local part of \<open>deleteSession\<close>, lines 57-65: the optimistic removal, and
  \<open>loadLastSession\<close> when the deleted session is the active one. The action of
  \<open>loadLastSession\<close> is dropped.
\<close>

definition deleteLocally :: "'m env \<Rightarrow> jsstring \<Rightarrow> 'm world \<Rightarrow> 'm world" where
  "deleteLocally env i w =
     (let w1 = dispatch (deleteSessionMetadata i) w;
          state = store w1
      in if i = session_id (session state)
         then snd (loadLastSession env False w1) else w1)"

text \<open>
  \<open>deleteSession\<close>, lines 54-72. The last refresh is dispatched with \<open>void\<close>: it is
  recorded as spawned and runs after the thunk has completed.
\<close>

definition deleteSession :: "'m env \<Rightarrow> jsstring \<Rightarrow> 'm world \<Rightarrow> (error + unit) \<times> 'm world" where
  "deleteSession env i w =
     (case send (HistoryDelete i) (\<lambda>m. historyDelete env m i) (deleteLocally env i w) of
        (Rejected e, w3) \<Rightarrow> (Inl e, w3)
      | (Resolved (StatusError msg), w3) \<Rightarrow> (Inl (Error msg), w3)
      | (Resolved (StatusSuccess _), w3) \<Rightarrow>
          (Inr (), w3\<lparr>spawned := spawned w3 @
              [\<lparr>offset = None, limit = None, list_workspaceDirectory = None\<rparr>]\<rparr>))"

text \<open>Running the oldest spawned refresh; its action goes nowhere.\<close>

definition runSpawned :: "'m env \<Rightarrow> 'm world \<Rightarrow> 'm world" where
  "runSpawned env w =
     (case spawned w of
        [] \<Rightarrow> w
      | args # rest \<Rightarrow> snd (refreshSessionMetadata env args (w\<lparr>spawned := rest\<rparr>)))"

section \<open>A remote store for concrete runs\<close>

text \<open>
  A remote side that keeps the saved sessions, most recent first, and answers the
  list, load, save and delete operations from them. The answers of the workspace
  lookup, of the describe operation, and the status of save and delete are part of its
  state, so that a failing remote can be written down.
\<close>

record remote_store =
  saved :: "session list"
  listError :: "jsstring option"
  dirsAnswer :: "dirs_response outcome"
  saveAnswer :: "unit tagged outcome"
  deleteAnswer :: "unit tagged outcome"
  describeAnswer :: "jsstring option tagged outcome"

definition metadataOf :: "session \<Rightarrow> session_metadata" where
  "metadataOf s =
     \<lparr>md_sessionId = sessionId s, md_title = title s,
      md_workspaceDirectory = Some (workspaceDirectory s)\<rparr>"

definition listSaved :: "remote_store \<Rightarrow> refresh_args \<Rightarrow> session_metadata list" where
  "listSaved m args =
     (let inWorkspace = filter (\<lambda>s. case list_workspaceDirectory args of
                                      None \<Rightarrow> True
                                    | Some d \<Rightarrow> workspaceDirectory s = d) (saved m);
          fromOffset = drop (case offset args of None \<Rightarrow> 0 | Some k \<Rightarrow> k) inWorkspace;
          limited = (case limit args of None \<Rightarrow> fromOffset | Some n \<Rightarrow> take n fromOffset)
      in map metadataOf limited)"

definition textOf :: "chat_message \<Rightarrow> jsstring" where
  "textOf msg = (case content msg of TextContent t \<Rightarrow> t | PartsContent _ \<Rightarrow> [])"

definition demoEnv :: "remote_store env" where
  "demoEnv =
     \<lparr>historyLoad = (\<lambda>m i.
        (case find (\<lambda>s. sessionId s = i) (saved m) of
           Some s \<Rightarrow> Resolved (StatusSuccess s)
         | None \<Rightarrow> Resolved (StatusError (js ''no such session'')), m)),
      historyList = (\<lambda>m args.
        (case listError m of
           Some msg \<Rightarrow> Resolved (StatusError msg)
         | None \<Rightarrow> Resolved (StatusSuccess (listSaved m args)), m)),
      historyDelete = (\<lambda>m i.
        (deleteAnswer m,
         if deleteAnswer m = Resolved (StatusSuccess ())
         then m\<lparr>saved := filter (\<lambda>s. sessionId s \<noteq> i) (saved m)\<rparr> else m)),
      historySave = (\<lambda>m s.
        (saveAnswer m,
         if saveAnswer m = Resolved (StatusSuccess ())
         then m\<lparr>saved := s # filter (\<lambda>x. sessionId x \<noteq> sessionId s) (saved m)\<rparr> else m)),
      getWorkspaceDirs = (\<lambda>m. (dirsAnswer m, m)),
      chatDescribe = (\<lambda>m text. (describeAnswer m, m)),
      renderChatMessage = textOf,
      uuid = (\<lambda>n. js ''fresh'' @ replicate n 0x2B)\<rparr>"

section \<open>Observations\<close>

text \<open>The active session of the store: its id, title and history.\<close>

definition activeSession :: "root_state \<Rightarrow> jsstring \<times> jsstring \<times> chat_history_item list" where
  "activeSession state =
     (session_id (session state), session_title (session state),
      session_history (session state))"

definition isHistoryLoad :: "request \<Rightarrow> bool" where
  "isHistoryLoad rq = (case rq of HistoryLoad _ \<Rightarrow> True | _ \<Rightarrow> False)"

definition isHistorySave :: "request \<Rightarrow> bool" where
  "isHistorySave rq = (case rq of HistorySave _ \<Rightarrow> True | _ \<Rightarrow> False)"

text \<open>
  The list request of \<open>loadLastSession\<close> is the only one with \<open>limit\<close> 1; the refresh
  of \<open>updateSession\<close> has no limit.
\<close>

definition isLastSessionList :: "request \<Rightarrow> bool" where
  "isLastSessionList rq = (case rq of HistoryList args \<Rightarrow> limit args = Some 1 | _ \<Rightarrow> False)"

text \<open>
  A class of requests that the workspace lookup, the describe operation and a list
  request without a limit do not belong to.
\<close>

definition quiet :: "(request \<Rightarrow> bool) \<Rightarrow> bool" where
  "quiet P \<longleftrightarrow>
     \<not> P GetWorkspaceDirs \<and> (\<forall>text. \<not> P (ChatDescribe text)) \<and>
     (\<forall>args. limit args = None \<longrightarrow> \<not> P (HistoryList args))"

section \<open>Concrete sessions, stores and remotes\<close>

definition item :: "role \<Rightarrow> jsstring \<Rightarrow> chat_history_item" where
  "item r t = \<lparr>message = \<lparr>role = r, content = TextContent t\<rparr>\<rparr>"

definition sessionAbc :: session where
  "sessionAbc =
     \<lparr>sessionId = js ''abc'', title = js ''Fix the parser'', workspaceDirectory = js ''/w'',
      history = [item User (js ''hi''), item Assistant (js ''hello'')]\<rparr>"

definition remoteAbc :: remote_store where
  "remoteAbc =
     \<lparr>saved = [sessionAbc],
      listError = None,
      dirsAnswer = Resolved (TaggedDirs (StatusSuccess [js ''/w''])),
      saveAnswer = Resolved (StatusSuccess ()),
      deleteAnswer = Resolved (StatusSuccess ()),
      describeAnswer = Resolved (StatusSuccess (Some (js ''Described'')))\<rparr>"

text \<open>The session abc is active, saved remotely and listed in the metadata.\<close>

definition worldAbc :: "remote_store world" where
  "worldAbc =
     \<lparr>store =
        \<lparr>session =
           \<lparr>session_id = sessionId sessionAbc, session_title = title sessionAbc,
            session_history = history sessionAbc,
            allSessionMetadata = [metadataOf sessionAbc],
            isSessionMetadataLoading = False\<rparr>,
         disableSessionTitles = False, selectedChatModel = True\<rparr>,
      remote = remoteAbc, requests = [], spawned = [], uuidCounter = 0\<rparr>"

text \<open>A new session that has no message yet.\<close>

definition worldEmpty :: "remote_store world" where
  "worldEmpty =
     worldAbc\<lparr>store := (store worldAbc)\<lparr>session :=
       \<lparr>session_id = js ''new'', session_title = NEW_SESSION_TITLE, session_history = [],
        allSessionMetadata = [metadataOf sessionAbc], isSessionMetadataLoading = False\<rparr>\<rparr>\<rparr>"

text \<open>The same world with a remote that rejects, or answers with an error status.\<close>

definition worldOffline :: "remote_store world" where
  "worldOffline = worldAbc\<lparr>remote := remoteAbc\<lparr>saveAnswer := Rejected (Error (js ''offline''))\<rparr>\<rparr>"

definition worldSaveError :: "remote_store world" where
  "worldSaveError =
     worldAbc\<lparr>remote := remoteAbc\<lparr>saveAnswer := Resolved (StatusError (js ''disk full''))\<rparr>\<rparr>"

definition worldDeleteError :: "remote_store world" where
  "worldDeleteError =
     worldAbc\<lparr>remote := remoteAbc\<lparr>deleteAnswer := Resolved (StatusError (js ''denied''))\<rparr>\<rparr>"

text \<open>A new session is active, and the delete request is answered with an error status.\<close>

definition worldOtherDeleteError :: "remote_store world" where
  "worldOtherDeleteError =
     worldEmpty\<lparr>remote := remoteAbc\<lparr>deleteAnswer := Resolved (StatusError (js ''denied''))\<rparr>\<rparr>"

definition worldListError :: "remote_store world" where
  "worldListError = worldAbc\<lparr>remote := remoteAbc\<lparr>listError := Some (js ''unreachable'')\<rparr>\<rparr>"

text \<open>
  The session abc is active, a more recent session xyz is saved as well, and the
  delete request is answered with an error status.
\<close>

definition sessionXyz :: session where
  "sessionXyz =
     \<lparr>sessionId = js ''xyz'', title = js ''Later work'', workspaceDirectory = js ''/w'',
      history = [item User (js ''more'')]\<rparr>"

definition worldXyzDeleteError :: "remote_store world" where
  "worldXyzDeleteError =
     worldAbc\<lparr>store := (store worldAbc)\<lparr>session := (session (store worldAbc))
                 \<lparr>allSessionMetadata := [metadataOf sessionXyz, metadataOf sessionAbc]\<rparr>\<rparr>,
               remote := remoteAbc\<lparr>saved := [sessionXyz, sessionAbc],
                                    deleteAnswer := Resolved (StatusError (js ''denied''))\<rparr>\<rparr>"

text \<open>
  An untitled session whose only message is blank; titles are disabled and the metadata
  is empty.
\<close>

definition worldUntitled :: "remote_store world" where
  "worldUntitled =
     worldAbc\<lparr>store :=
       \<lparr>session =
          \<lparr>session_id = js ''u1'', session_title = NEW_SESSION_TITLE,
           session_history = [item User (js '' '')],
           allSessionMetadata = [], isSessionMetadataLoading = False\<rparr>,
        disableSessionTitles = True, selectedChatModel = True\<rparr>\<rparr>"

text \<open>A store whose metadata has an entry the remote does not know, still loading.\<close>

definition worldStale :: "remote_store world" where
  "worldStale =
     worldAbc\<lparr>store := (store worldAbc)\<lparr>session := (session (store worldAbc))
       \<lparr>allSessionMetadata :=
          [\<lparr>md_sessionId = js ''old'', md_title = js ''Gone'', md_workspaceDirectory = None\<rparr>,
           metadataOf sessionAbc],
        isSessionMetadataLoading := True\<rparr>\<rparr>\<rparr>"

definition longLine :: jsstring where
  "longLine = replicate 120 0x61"

definition longMessage :: chat_message where
  "longMessage =
     \<lparr>role = User,
      content = TextContent (join_newline [js ''intro'', longLine, [], js ''  ''])\<rparr>"

definition blankMessage :: chat_message where
  "blankMessage = \<lparr>role = User, content = TextContent (js '' '' @ [newline, 0x09])\<rparr>"

section \<open>Properties of the string functions\<close>

lemma split_newline_not_Nil: "split_newline s \<noteq> []"
  by (induction s) (auto split: list.splits)

lemma split_newline_line: "newline \<notin> set l \<Longrightarrow> split_newline l = [l]"
  by (induction l) auto

lemma split_newline_append:
  "newline \<notin> set l \<Longrightarrow> split_newline (l @ newline # s) = l # split_newline s"
  by (induction l) auto

lemma split_join_newline:
  "ls \<noteq> [] \<Longrightarrow> \<forall>l \<in> set ls. newline \<notin> set l \<Longrightarrow> split_newline (join_newline ls) = ls"
  by (induction ls rule: join_newline.induct)
     (simp_all add: split_newline_line split_newline_append)

lemma trim_empty_iff: "trim l = [] \<longleftrightarrow> blank l"
proof
  assume "trim l = []"
  then have "\<forall>c \<in> set (dropWhile isWhiteSpace l). isWhiteSpace c"
    by (simp add: trim_def)
  then have "dropWhile isWhiteSpace l = []"
    by (metis hd_dropWhile list.set_sel(1))
  then show "blank l"
    by (simp add: blank_def)
next
  assume "blank l"
  then show "trim l = []"
    by (auto simp: blank_def trim_def dest: set_dropWhileD)
qed

lemma blank_lines:
  "blank s \<Longrightarrow> \<forall>l \<in> set (split_newline s). blank l"
proof (induction s)
  case Nil
  then show ?case by (simp add: blank_def)
next
  case (Cons c cs)
  then have "blank cs" and "\<forall>l \<in> set (split_newline cs). blank l"
    by (simp_all add: blank_def)
  with Cons.prems show ?case
    by (cases "split_newline cs") (auto simp: blank_def)
qed

lemma last_or_empty_snoc: "last_or_empty (xs @ [x]) = x"
  by (simp add: last_or_empty_def)

section \<open>What the operations leave alone\<close>

lemma send_eq:
  "send rq f w = (fst (f (remote w)), w\<lparr>remote := snd (f (remote w)), requests := requests w @ [rq]\<rparr>)"
  by (simp add: send_def split: prod.splits)

lemma dispatch_simps:
  "remote (dispatch a w) = remote w"
  "requests (dispatch a w) = requests w"
  "spawned (dispatch a w) = spawned w"
  "uuidCounter (dispatch a w) = uuidCounter w"
  "session (store (dispatch a w)) = a (session (store w))"
  "disableSessionTitles (store (dispatch a w)) = disableSessionTitles (store w)"
  "selectedChatModel (store (dispatch a w)) = selectedChatModel (store w)"
  by (simp_all add: dispatch_def)

lemma dispatch_newSession_simps:
  "remote (dispatch_newSession env p w) = remote w"
  "requests (dispatch_newSession env p w) = requests w"
  "spawned (dispatch_newSession env p w) = spawned w"
  "allSessionMetadata (session (store (dispatch_newSession env p w))) = allSessionMetadata (session (store w))"
  "activeSession (store (dispatch_newSession env (Some s) w)) = (sessionId s, title s, history s)"
  by (simp_all add: dispatch_newSession_def dispatch_simps newSession_def activeSession_def split: option.splits)

lemma refresh_requests:
  "requests (snd (refreshSessionMetadata env args w)) = requests w @ [HistoryList args]"
  by (simp add: refreshSessionMetadata_def send_eq dispatch_simps split: outcome.splits tagged.splits)

lemma refresh_active:
  "activeSession (store (snd (refreshSessionMetadata env args w))) = activeSession (store w)"
  by (simp add: refreshSessionMetadata_def send_eq dispatch_simps activeSession_def
      setAllSessionMetadata_def setIsSessionMetadataLoading_def split: outcome.splits tagged.splits)

lemma getSession_requests:
  "requests (snd (getSession env i w)) = requests w @ [HistoryLoad i]"
  by (simp add: getSession_def send_eq split: outcome.splits tagged.splits)

lemma getSession_store:
  "store (snd (getSession env i w)) = store w"
  by (simp add: getSession_def send_eq split: outcome.splits tagged.splits)

lemma updateSession_filter:
  "quiet P \<Longrightarrow> filter P (requests (snd (updateSession env s w))) =
     filter P (requests w) @ (if P (HistorySave s) then [HistorySave s] else [])"
  by (simp add: updateSession_def Let_def send_eq dispatch_simps refresh_requests quiet_def
      split_def split: outcome.splits)

lemma updateSession_active:
  "activeSession (store (snd (updateSession env s w))) = activeSession (store w)"
  by (simp add: updateSession_def Let_def send_eq dispatch_simps refresh_active
      split_def split: outcome.splits)
    (simp add: activeSession_def dispatch_simps updateSessionMetadata_def)

lemma describeTitle_store:
  "store (snd (describeTitle env g state w)) = store w"
  by (simp add: describeTitle_def send_eq split: option.splits outcome.splits tagged.splits)

lemma describeTitle_filter:
  "quiet P \<Longrightarrow> filter P (requests (snd (describeTitle env g state w))) = filter P (requests w)"
  by (simp add: describeTitle_def send_eq quiet_def split: option.splits outcome.splits tagged.splits)

lemma resolveTitle_store:
  "store (snd (resolveTitle env g state first w)) = store w"
  by (simp add: resolveTitle_def Let_def describeTitle_store split_def)

lemma resolveTitle_filter:
  "quiet P \<Longrightarrow>
   filter P (requests (snd (resolveTitle env g state first w))) = filter P (requests w)"
  by (simp add: resolveTitle_def Let_def describeTitle_filter split_def)


lemma currentSessionToSave_filter:
  "quiet P \<Longrightarrow>
   filter P (requests (snd (currentSessionToSave env on g first w))) = filter P (requests w)"
  by (simp add: currentSessionToSave_def Let_def split_def resolveTitle_filter send_eq
      dispatch_newSession_simps)
    (simp add: quiet_def)

lemma currentSessionToSave_store:
  "store (snd (currentSessionToSave env False g first w)) = store w"
  by (simp add: currentSessionToSave_def Let_def split_def resolveTitle_store send_eq)

lemma saveCurrentSession_filter:
  "quiet P \<Longrightarrow> \<forall>s. \<not> P (HistorySave s) \<Longrightarrow>
   filter P (requests (snd (saveCurrentSession env on g w))) = filter P (requests w)"
  by (simp add: saveCurrentSession_def split_def updateSession_filter
      currentSessionToSave_filter split: sum.splits list.splits)

lemma saveCurrentSession_saves:
  "session_history (session (store w)) = first # rest \<Longrightarrow>
   filter isHistorySave (requests (snd (saveCurrentSession env on g w))) =
     filter isHistorySave (requests w) @
       [HistorySave (fst (currentSessionToSave env on g first w))]"
  by (simp add: saveCurrentSession_def split_def updateSession_filter
      currentSessionToSave_filter quiet_def isHistorySave_def split: sum.splits)

lemma saveCurrentSession_active:
  "activeSession (store (snd (saveCurrentSession env False g w))) = activeSession (store w)"
  by (simp add: saveCurrentSession_def split_def updateSession_active
      currentSessionToSave_store split: sum.splits list.splits)

lemma quiet_simps: "quiet isHistoryLoad" "quiet isHistorySave" "quiet isLastSessionList"
  by (simp_all add: quiet_def isHistoryLoad_def isHistorySave_def isLastSessionList_def)

lemma firstWorkspaceDir_Some:
  "firstWorkspaceDir response = Some d \<longleftrightarrow> (\<exists>ds. response = Resolved (RawArray (d # ds)))"
  by (simp add: firstWorkspaceDir_def split: outcome.splits dirs_response.splits list.splits)

lemma firstWorkspaceDir_tagged: "firstWorkspaceDir (Resolved (TaggedDirs t)) = None"
  by (simp add: firstWorkspaceDir_def)

lemma activateLastSession_requests:
  "filter P (requests (snd (activateLastSession env r w))) =
     filter P (requests w) @
       (case r of Inr (m # _) \<Rightarrow> filter P [HistoryLoad (md_sessionId m)] | _ \<Rightarrow> [])"
  by (simp add: activateLastSession_def split_def getSession_requests
      dispatch_newSession_simps split: sum.splits list.splits)


lemma activateLastSession_list:
  "filter isLastSessionList (requests (snd (activateLastSession env r w))) =
     filter isLastSessionList (requests w)"
  by (simp add: activateLastSession_requests isLastSessionList_def split: sum.splits list.splits)

lemma saveCurrentSession_list:
  "filter isLastSessionList (requests (snd (saveCurrentSession env on g w))) =
     filter isLastSessionList (requests w)"
  by (rule saveCurrentSession_filter) (simp_all add: quiet_simps isLastSessionList_def)

lemma loadLastSession_list_request:
  "filter isLastSessionList (requests (snd (loadLastSession env save w))) =
     filter isLastSessionList (requests w) @
       [HistoryList \<lparr>offset = None, limit = Some 1,
          list_workspaceDirectory = firstWorkspaceDir (fst (getWorkspaceDirs env (remote w)))\<rparr>]"
proof -
  define w1 where "w1 = snd (send GetWorkspaceDirs (getWorkspaceDirs env) w)"
  define w2 where "w2 = (if session_id (session (store w)) \<noteq> [] \<and> save
                     then snd (saveCurrentSession env False True w1) else w1)"
  have 1: "filter isLastSessionList (requests w1) = filter isLastSessionList (requests w)"
    by (simp add: w1_def send_eq isLastSessionList_def)
  have 2: "filter isLastSessionList (requests w2) = filter isLastSessionList (requests w)"
    by (simp add: w2_def saveCurrentSession_list 1)
  show ?thesis
    unfolding loadLastSession_def Let_def split_def
    by (simp only: activateLastSession_list refresh_requests filter_append
          w1_def [symmetric] w2_def [symmetric] 2)
       (simp add: send_eq isLastSessionList_def)
qed


lemma currentSessionToSave_workspaceDirectory:
  "workspaceDirectory (fst (currentSessionToSave env on g first w)) =
     (case firstWorkspaceDir (fst (getWorkspaceDirs env (remote w))) of Some d \<Rightarrow> d | None \<Rightarrow> [])"
  by (simp add: currentSessionToSave_def Let_def split_def send_eq)

lemma getSession_success:
  "historyLoad env (remote w) i = (Resolved (StatusSuccess s), m') \<Longrightarrow>
   fst (getSession env i w) = Inr s"
  by (simp add: getSession_def send_eq)


section \<open>Title truncation\<close>

lemma titleFromText_last_line:
  assumes "\<forall>x \<in> set (pre @ l # post). newline \<notin> set x"
    and "\<not> blank l" and "\<forall>x \<in> set post. blank x"
  shows "last_or_empty (filter (\<lambda>x. trim x \<noteq> [])
           (split_newline (join_newline (pre @ l # post)))) = l"
proof -
  have "split_newline (join_newline (pre @ l # post)) = pre @ l # post"
    using assms(1) by (intro split_join_newline) simp_all
  moreover have "filter (\<lambda>x. trim x \<noteq> []) post = []"
    using assms(3) by (simp add: trim_empty_iff filter_empty_conv)
  ultimately show ?thesis
    using assms(2) by (simp add: trim_empty_iff last_or_empty_snoc)
qed

lemma titleFromText_blank: "blank s \<Longrightarrow> titleFromText s = []"
proof -
  assume "blank s"
  then have "filter (\<lambda>x. trim x \<noteq> []) (split_newline s) = []"
    using blank_lines [of s] by (simp add: trim_empty_iff filter_empty_conv)
  then show ?thesis
    by (simp add: titleFromText_def last_or_empty_def)
qed

text \<open>
  C4. When the text rendered for a message is a sequence of lines whose last non-blank
  line \<open>l\<close> is longer than 100 code units, \<open>getChatTitleFromMessage\<close> returns a
  string of length exactly 100 that ends in "..." and whose first 97 code units are the
  first 97 of \<open>l\<close>. When the rendered text is empty or has blank lines only (white
  space throughout), it returns the empty string.
\<close>

theorem getChatTitleFromMessage_truncates:
  "(renderChatMessage env m = join_newline (pre @ l # post) \<and>
    (\<forall>x \<in> set (pre @ l # post). newline \<notin> set x) \<and>
    \<not> blank l \<and> (\<forall>x \<in> set post. blank x) \<and> length l > 100 \<longrightarrow>
      length (getChatTitleFromMessage env m) = 100 \<and>
      drop 97 (getChatTitleFromMessage env m) = js ''...'' \<and>
      take 97 (getChatTitleFromMessage env m) = take 97 l) \<and>
   (blank (renderChatMessage env m) \<longrightarrow> getChatTitleFromMessage env m = [])"
proof (intro conjI impI)
  assume h: "renderChatMessage env m = join_newline (pre @ l # post) \<and>
    (\<forall>x \<in> set (pre @ l # post). newline \<notin> set x) \<and>
    \<not> blank l \<and> (\<forall>x \<in> set post. blank x) \<and> length l > 100"
  then have "last_or_empty (filter (\<lambda>x. trim x \<noteq> [])
      (split_newline (renderChatMessage env m))) = l"
    using titleFromText_last_line [of pre l post] by simp
  with h have t: "getChatTitleFromMessage env m = take 97 l @ js ''...''"
    by (simp add: getChatTitleFromMessage_def titleFromText_def MAX_TITLE_LENGTH_def)
  from h have len: "length (take 97 l) = 97"
    by simp
  show "length (getChatTitleFromMessage env m) = 100"
    using h by (simp add: t js_def)
  show "drop 97 (getChatTitleFromMessage env m) = js ''...''"
    using len by (simp add: t)
  show "take 97 (getChatTitleFromMessage env m) = take 97 l"
    using len by (simp add: t)
next
  assume "blank (renderChatMessage env m)"
  then show "getChatTitleFromMessage env m = []"
    by (simp add: getChatTitleFromMessage_def titleFromText_blank)
qed

lemma longMessage_lines:
  "renderChatMessage demoEnv longMessage = join_newline ([js ''intro''] @ longLine # [[], js ''  ''])
   \<and> (\<forall>x \<in> set ([js ''intro''] @ longLine # [[], js ''  '']). newline \<notin> set x)
   \<and> \<not> blank longLine \<and> (\<forall>x \<in> set [[], js ''  '']. blank x) \<and> length longLine > 100"
  by (simp add: demoEnv_def textOf_def longMessage_def longLine_def js_def newline_def
      blank_def isWhiteSpace_def)

lemma blankMessage_blank: "blank (renderChatMessage demoEnv blankMessage)"
  by (simp add: demoEnv_def textOf_def blankMessage_def js_def newline_def blank_def
      isWhiteSpace_def)

theorem getChatTitleFromMessage_truncates_witness:
  "length (getChatTitleFromMessage demoEnv longMessage) = 100 \<and>
   drop 97 (getChatTitleFromMessage demoEnv longMessage) = js ''...'' \<and>
   take 97 (getChatTitleFromMessage demoEnv longMessage) = replicate 97 0x61 \<and>
   getChatTitleFromMessage demoEnv blankMessage = []"
  using getChatTitleFromMessage_truncates
          [of demoEnv longMessage "[js ''intro'']" longLine "[[], js ''  '']"]
        getChatTitleFromMessage_truncates [of demoEnv blankMessage]
        longMessage_lines blankMessage_blank
  by (simp add: longLine_def)

section \<open>Saving a session without history\<close>

text \<open>
  C8. For every combination of the flags \<open>openNewSession\<close> and \<open>generateTitle\<close>,
  when the history of the active session is empty \<open>saveCurrentSession\<close> returns at
  once: the world is the one it started in, so no request has been issued, no session
  has been opened and the store, the metadata included, is unchanged.
\<close>

theorem saveCurrentSession_empty_history:
  assumes "session_history (session (store w)) = []"
  shows "saveCurrentSession env openNewSession generateTitle w = (Inr (), w) \<and>
         requests (snd (saveCurrentSession env openNewSession generateTitle w)) = requests w \<and>
         store (snd (saveCurrentSession env openNewSession generateTitle w)) = store w"
  using assms by (simp add: saveCurrentSession_def)

theorem saveCurrentSession_empty_history_witness:
  "session_history (session (store worldEmpty)) = [] \<and>
   saveCurrentSession demoEnv True True worldEmpty = (Inr (), worldEmpty) \<and>
   requests (snd (saveCurrentSession demoEnv True True worldEmpty)) = [] \<and>
   session_id (session (store (snd (saveCurrentSession demoEnv True True worldEmpty)))) = js ''new''"
proof -
  have h: "session_history (session (store worldEmpty)) = []"
    by (simp add: worldEmpty_def)
  show ?thesis
    using h saveCurrentSession_empty_history [OF h, of demoEnv True True]
    by (simp add: worldEmpty_def worldAbc_def)
qed

section \<open>Unfolding the model on concrete worlds\<close>

lemmas model_defs =
  getSession_def refreshSessionMetadata_def updateSession_def firstWorkspaceDir_def
  assistantResponse_def describeTitle_def getChatTitleFromMessage_def resolveTitle_def
  currentSessionToSave_def saveCurrentSession_def activateLastSession_def
  loadLastSession_def send_def dispatch_def dispatch_newSession_def newSession_def
  updateSessionMetadata_def deleteSessionMetadata_def setAllSessionMetadata_def
  setIsSessionMetadataLoading_def titleFromText_def last_or_empty_def trim_def
  isWhiteSpace_def MAX_TITLE_LENGTH_def NEW_SESSION_TITLE_def toString_def newline_def js_def

lemmas demo_defs =
  demoEnv_def listSaved_def metadataOf_def textOf_def item_def sessionAbc_def remoteAbc_def
  worldAbc_def worldEmpty_def worldOffline_def

section \<open>Refreshing the metadata\<close>

text \<open>
  C7. When the history/list request answers with an error status,
  \<open>refreshSessionMetadata\<close> fails with that error and the store is as it was. When it
  answers with success, the loading flag is false afterwards, the metadata collection
  is exactly the content of the answer, and that list is the result.
\<close>

theorem refreshSessionMetadata_replaces_metadata:
  "(historyList env (remote w) args = (Resolved (StatusError msg), m1) \<longrightarrow>
      fst (refreshSessionMetadata env args w) = Inl (Error msg) \<and>
      store (snd (refreshSessionMetadata env args w)) = store w) \<and>
   (historyList env (remote w) args = (Resolved (StatusSuccess c), m2) \<longrightarrow>
      fst (refreshSessionMetadata env args w) = Inr c \<and>
      allSessionMetadata (session (store (snd (refreshSessionMetadata env args w)))) = c \<and>
      isSessionMetadataLoading (session (store (snd (refreshSessionMetadata env args w)))) = False)"
  by (simp add: refreshSessionMetadata_def send_eq dispatch_simps setAllSessionMetadata_def
      setIsSessionMetadataLoading_def)

theorem refreshSessionMetadata_replaces_metadata_witness:
  "fst (refreshSessionMetadata demoEnv
          \<lparr>offset = None, limit = None, list_workspaceDirectory = None\<rparr> worldListError) =
     Inl (Error (js ''unreachable'')) \<and>
   store (snd (refreshSessionMetadata demoEnv
          \<lparr>offset = None, limit = None, list_workspaceDirectory = None\<rparr> worldListError)) =
     store worldListError \<and>
   length (allSessionMetadata (session (store worldStale))) = 2 \<and>
   fst (refreshSessionMetadata demoEnv
          \<lparr>offset = None, limit = None, list_workspaceDirectory = None\<rparr> worldStale) =
     Inr [metadataOf sessionAbc] \<and>
   allSessionMetadata (session (store (snd (refreshSessionMetadata demoEnv
          \<lparr>offset = None, limit = None, list_workspaceDirectory = None\<rparr> worldStale)))) =
     [metadataOf sessionAbc] \<and>
   isSessionMetadataLoading (session (store (snd (refreshSessionMetadata demoEnv
          \<lparr>offset = None, limit = None, list_workspaceDirectory = None\<rparr> worldStale)))) = False"
proof -
  let ?args = "\<lparr>offset = None, limit = None, list_workspaceDirectory = None\<rparr>"
  have h1: "historyList demoEnv (remote worldListError) ?args =
      (Resolved (StatusError (js ''unreachable'')), remote worldListError)"
    by (simp add: demo_defs worldListError_def)
  have h2: "historyList demoEnv (remote worldStale) ?args =
      (Resolved (StatusSuccess [metadataOf sessionAbc]), remote worldStale)"
    by (simp add: demo_defs worldStale_def)
  have h3: "length (allSessionMetadata (session (store worldStale))) = 2"
    by (simp add: demo_defs worldStale_def)
  show ?thesis
    using h1 h2 h3
      refreshSessionMetadata_replaces_metadata
        [where env = demoEnv and w = worldListError and args = ?args
           and msg = "js ''unreachable''" and ?m1.0 = "remote worldListError"]
      refreshSessionMetadata_replaces_metadata
        [where env = demoEnv and w = worldStale and args = ?args
           and c = "[metadataOf sessionAbc]" and ?m2.0 = "remote worldStale"]
    by simp
qed

section \<open>The workspace lookup\<close>

text \<open>
  C10. The list request of \<open>loadLastSession\<close> carries a workspace directory exactly
  when the value of the workspace lookup is an array with a first element, and
  \<open>saveCurrentSession\<close> persists a workspace directory other than the empty string
  only then. For every tagged value, also a success that carries directories,
  \<open>loadLastSession\<close> lists with no workspace directory and \<open>saveCurrentSession\<close>
  persists the empty string.
\<close>

theorem workspace_directory_adoption:
  assumes "getWorkspaceDirs env (remote w) = (response, m')"
  shows "(\<exists>wd. filter isLastSessionList (requests (snd (loadLastSession env save w))) =
             filter isLastSessionList (requests w) @
               [HistoryList \<lparr>offset = None, limit = Some 1, list_workspaceDirectory = wd\<rparr>] \<and>
           (\<forall>d. wd = Some d \<longleftrightarrow> (\<exists>ds. response = Resolved (RawArray (d # ds)))) \<and>
           (\<forall>t. response = Resolved (TaggedDirs t) \<longrightarrow> wd = None)) \<and>
         (session_history (session (store w)) \<noteq> [] \<longrightarrow>
           (\<exists>s. filter isHistorySave
                   (requests (snd (saveCurrentSession env openNewSession generateTitle w))) =
                 filter isHistorySave (requests w) @ [HistorySave s] \<and>
             (workspaceDirectory s \<noteq> [] \<longrightarrow>
                (\<exists>ds. response = Resolved (RawArray (workspaceDirectory s # ds)))) \<and>
             (\<forall>t. response = Resolved (TaggedDirs t) \<longrightarrow> workspaceDirectory s = [])))"
proof (intro conjI impI)
  let ?wd = "firstWorkspaceDir response"
  have "filter isLastSessionList (requests (snd (loadLastSession env save w))) =
      filter isLastSessionList (requests w) @
        [HistoryList \<lparr>offset = None, limit = Some 1, list_workspaceDirectory = ?wd\<rparr>]"
    using assms by (simp add: loadLastSession_list_request)
  moreover have "\<forall>d. ?wd = Some d \<longleftrightarrow> (\<exists>ds. response = Resolved (RawArray (d # ds)))"
    by (simp add: firstWorkspaceDir_Some)
  moreover have "\<forall>t. response = Resolved (TaggedDirs t) \<longrightarrow> ?wd = None"
    by (simp add: firstWorkspaceDir_tagged)
  ultimately show "\<exists>wd. filter isLastSessionList (requests (snd (loadLastSession env save w))) =
             filter isLastSessionList (requests w) @
               [HistoryList \<lparr>offset = None, limit = Some 1, list_workspaceDirectory = wd\<rparr>] \<and>
           (\<forall>d. wd = Some d \<longleftrightarrow> (\<exists>ds. response = Resolved (RawArray (d # ds)))) \<and>
           (\<forall>t. response = Resolved (TaggedDirs t) \<longrightarrow> wd = None)"
    by blast
next
  assume "session_history (session (store w)) \<noteq> []"
  then obtain first rest where h: "session_history (session (store w)) = first # rest"
    by (cases "session_history (session (store w))") simp_all
  let ?s = "fst (currentSessionToSave env openNewSession generateTitle first w)"
  have wd: "workspaceDirectory ?s = (case firstWorkspaceDir response of Some d \<Rightarrow> d | None \<Rightarrow> [])"
    using assms by (simp add: currentSessionToSave_workspaceDirectory)
  have "filter isHistorySave
          (requests (snd (saveCurrentSession env openNewSession generateTitle w))) =
        filter isHistorySave (requests w) @ [HistorySave ?s]"
    using h by (rule saveCurrentSession_saves)
  moreover have "workspaceDirectory ?s \<noteq> [] \<longrightarrow>
      (\<exists>ds. response = Resolved (RawArray (workspaceDirectory ?s # ds)))"
    using wd by (cases "firstWorkspaceDir response") (simp_all add: firstWorkspaceDir_Some)
  moreover have "\<forall>t. response = Resolved (TaggedDirs t) \<longrightarrow> workspaceDirectory ?s = []"
    using wd by (auto simp: firstWorkspaceDir_tagged)
  ultimately show "\<exists>s. filter isHistorySave
                   (requests (snd (saveCurrentSession env openNewSession generateTitle w))) =
                 filter isHistorySave (requests w) @ [HistorySave s] \<and>
             (workspaceDirectory s \<noteq> [] \<longrightarrow>
                (\<exists>ds. response = Resolved (RawArray (workspaceDirectory s # ds)))) \<and>
             (\<forall>t. response = Resolved (TaggedDirs t) \<longrightarrow> workspaceDirectory s = [])"
    by blast
qed


theorem workspace_directory_adoption_witness:
  "getWorkspaceDirs demoEnv (remote worldAbc) =
     (Resolved (TaggedDirs (StatusSuccess [js ''/w''])), remoteAbc) \<and>
   filter isLastSessionList (requests (snd (loadLastSession demoEnv False worldAbc))) =
     [HistoryList \<lparr>offset = None, limit = Some 1, list_workspaceDirectory = None\<rparr>] \<and>
   (\<exists>s. filter isHistorySave (requests (snd (saveCurrentSession demoEnv False True worldAbc))) =
          [HistorySave s] \<and> workspaceDirectory s = [])"
proof -
  have h: "getWorkspaceDirs demoEnv (remote worldAbc) =
      (Resolved (TaggedDirs (StatusSuccess [js ''/w''])), remoteAbc)"
    by (simp add: demo_defs)
  have e: "requests worldAbc = []" "session_history (session (store worldAbc)) \<noteq> []"
    by (simp_all add: demo_defs)
  show ?thesis
    using h e workspace_directory_adoption [OF h, of False False True]
    by auto
qed

section \<open>Loading a session by id\<close>

text \<open>
  C9. When \<open>loadSession\<close> is asked to save first and the save-current cycle fails,
  \<open>loadSession\<close> fails with the same error in the world the save left: no history/load
  request has been issued, and the id, title and history of the active session are
  unchanged. When the save succeeds, or is not asked for, the history/load request for
  the target is issued next, and on a success answer the id, title and history of the
  active session are those of the fetched session.
\<close>

theorem loadSession_aborts_on_failed_save:
  "(save \<and> saveCurrentSession env False True w = (Inl e, w1) \<longrightarrow>
      loadSession env sid save w = (Inl e, w1) \<and>
      filter isHistoryLoad (requests w1) = filter isHistoryLoad (requests w) \<and>
      activeSession (store w1) = activeSession (store w)) \<and>
   ((if save then saveCurrentSession env False True w else (Inr (), w)) = (Inr u, w1) \<longrightarrow>
      requests (snd (loadSession env sid save w)) = requests w1 @ [HistoryLoad sid] \<and>
      (\<forall>s m'. historyLoad env (remote w1) sid = (Resolved (StatusSuccess s), m') \<longrightarrow>
         fst (loadSession env sid save w) = Inr () \<and>
         activeSession (store (snd (loadSession env sid save w))) =
           (sessionId s, title s, history s)))"
proof (intro conjI impI allI)
  assume h: "save \<and> saveCurrentSession env False True w = (Inl e, w1)"
  then show "loadSession env sid save w = (Inl e, w1)"
    by (simp add: loadSession_def)
  have "w1 = snd (saveCurrentSession env False True w)"
    using h by simp
  then show "filter isHistoryLoad (requests w1) = filter isHistoryLoad (requests w)"
    and "activeSession (store w1) = activeSession (store w)"
    by (simp_all add: saveCurrentSession_filter quiet_simps isHistoryLoad_def
        saveCurrentSession_active)
next
  assume h: "(if save then saveCurrentSession env False True w else (Inr (), w)) = (Inr u, w1)"
  then have l: "loadSession env sid save w =
      (case getSession env sid w1 of
         (Inl e, w2) \<Rightarrow> (Inl e, w2)
       | (Inr s, w2) \<Rightarrow> (Inr (), dispatch_newSession env (Some s) w2))"
    by (simp add: loadSession_def)
  show "requests (snd (loadSession env sid save w)) = requests w1 @ [HistoryLoad sid]"
    by (simp add: l split_def getSession_requests dispatch_newSession_simps split: sum.splits)
  fix s m'
  assume "historyLoad env (remote w1) sid = (Resolved (StatusSuccess s), m')"
  then have g: "fst (getSession env sid w1) = Inr s"
    by (rule getSession_success)
  show "fst (loadSession env sid save w) = Inr ()"
    using g by (simp add: l split_def)
  show "activeSession (store (snd (loadSession env sid save w))) =
      (sessionId s, title s, history s)"
    using g by (simp add: l split_def dispatch_newSession_simps)
qed

theorem loadSession_aborts_on_failed_save_witness:
  "fst (loadSession demoEnv (js ''abc'') True worldOffline) = Inl (Error (js ''offline'')) \<and>
   filter isHistoryLoad (requests (snd (loadSession demoEnv (js ''abc'') True worldOffline))) = [] \<and>
   activeSession (store (snd (loadSession demoEnv (js ''abc'') True worldOffline))) =
     activeSession (store worldOffline) \<and>
   fst (loadSession demoEnv (js ''abc'') False worldEmpty) = Inr () \<and>
   requests (snd (loadSession demoEnv (js ''abc'') False worldEmpty)) = [HistoryLoad (js ''abc'')] \<and>
   activeSession (store (snd (loadSession demoEnv (js ''abc'') False worldEmpty))) =
     (sessionId sessionAbc, title sessionAbc, history sessionAbc)"
proof -
  let ?w1 = "snd (saveCurrentSession demoEnv False True worldOffline)"
  have "fst (saveCurrentSession demoEnv False True worldOffline) = Inl (Error (js ''offline''))"
    by (simp add: model_defs demo_defs)
  then have h1: "True \<and> saveCurrentSession demoEnv False True worldOffline =
      (Inl (Error (js ''offline'')), ?w1)"
    by (simp add: prod_eq_iff)
  have h2: "(if False then saveCurrentSession demoEnv False True worldEmpty
             else (Inr (), worldEmpty)) = (Inr (), worldEmpty)"
    by simp
  have h3: "historyLoad demoEnv (remote worldEmpty) (js ''abc'') =
      (Resolved (StatusSuccess sessionAbc), remote worldEmpty)"
    by (simp add: demo_defs js_def)
  have e: "requests worldOffline = []" "requests worldEmpty = []"
    by (simp_all add: demo_defs)
  have a: "loadSession demoEnv (js ''abc'') True worldOffline = (Inl (Error (js ''offline'')), ?w1) \<and>
      filter isHistoryLoad (requests ?w1) = filter isHistoryLoad (requests worldOffline) \<and>
      activeSession (store ?w1) = activeSession (store worldOffline)"
    using h1 loadSession_aborts_on_failed_save
      [where save = True and env = demoEnv and w = worldOffline and sid = "js ''abc''"
         and e = "Error (js ''offline'')" and ?w1.0 = ?w1]
    by blast
  have b: "requests (snd (loadSession demoEnv (js ''abc'') False worldEmpty)) =
        requests worldEmpty @ [HistoryLoad (js ''abc'')] \<and>
      fst (loadSession demoEnv (js ''abc'') False worldEmpty) = Inr () \<and>
      activeSession (store (snd (loadSession demoEnv (js ''abc'') False worldEmpty))) =
        (sessionId sessionAbc, title sessionAbc, history sessionAbc)"
    using h2 h3 loadSession_aborts_on_failed_save
      [where save = False and env = demoEnv and w = worldEmpty and sid = "js ''abc''"
         and u = "()" and ?w1.0 = worldEmpty]
    by blast
  show ?thesis
    using a b e by simp
qed

section \<open>The title that is persisted\<close>

lemma NEW_SESSION_TITLE_not_empty: "NEW_SESSION_TITLE \<noteq> []"
  by (simp add: NEW_SESSION_TITLE_def js_def)

lemma describeTitle_not_empty: "fst (describeTitle env g state w) \<noteq> []"
  by (simp add: describeTitle_def send_eq split_def NEW_SESSION_TITLE_not_empty
      split: option.splits outcome.splits tagged.splits)

lemma describeTitle_unresolved:
  assumes "disableSessionTitles state \<or> \<not> selectedChatModel state \<or> \<not> g \<or>
     (\<forall>text t. assistantResponse (session_history (session state)) = Some text \<and> text \<noteq> [] \<and>
        fst (chatDescribe env (remote w) text) = Resolved (StatusSuccess (Some t)) \<longrightarrow> t = [])"
  shows "fst (describeTitle env g state w) = NEW_SESSION_TITLE"
  using assms
  by (auto simp: describeTitle_def send_eq split_def
      split: option.splits outcome.splits tagged.splits)

lemma resolveTitle_not_empty: "fst (resolveTitle env g state first w) \<noteq> []"
  by (simp add: resolveTitle_def Let_def split_def NEW_SESSION_TITLE_not_empty
      describeTitle_not_empty split: option.splits)

lemma resolveTitle_sentinel:
  assumes "session_title (session state) = NEW_SESSION_TITLE \<or> session_title (session state) = []"
    and "fst (describeTitle env g state w) = NEW_SESSION_TITLE"
    and "getChatTitleFromMessage env (message first) = []"
    and "\<forall>m \<in> set (allSessionMetadata (session (store w))).
           md_sessionId m \<noteq> session_id (session state)"
  shows "fst (resolveTitle env g state first w) = NEW_SESSION_TITLE"
proof -
  have "find (\<lambda>m. md_sessionId m = session_id (session state))
          (allSessionMetadata (session (store w))) = None"
    using assms(4) by (simp add: find_None_iff)
  then show ?thesis
    using assms(1-3)
    by (auto simp: resolveTitle_def Let_def split_def describeTitle_store
        NEW_SESSION_TITLE_not_empty)
qed

lemma currentSessionToSave_title:
  "title (fst (currentSessionToSave env on g first w)) =
     fst (resolveTitle env g (store w) first
       (if on then dispatch_newSession env None (snd (send GetWorkspaceDirs (getWorkspaceDirs env) w))
        else snd (send GetWorkspaceDirs (getWorkspaceDirs env) w)))"
  by (simp add: currentSessionToSave_def Let_def split_def)

text \<open>
  C3. The fallback chain of title resolution is the block that line 213 enters when the
  current title is the sentinel. When \<open>saveCurrentSession\<close> persists a session (the
  history is not empty), the title it persists is never the empty string. When
  moreover the current title is the sentinel (or the empty string, which skips to the
  last two stages), the describe stage is disabled or does not give a title (no
  assistant text, a rejection, an error status, no content or empty content), the
  title derived from the first message is empty, and no metadata entry has the id of
  the active session, the title persisted is exactly the sentinel.
\<close>

theorem saveCurrentSession_title_fallback:
  assumes "session_history (session (store w)) = first # rest"
  shows "\<exists>s. filter isHistorySave (requests (snd (saveCurrentSession env openNewSession generateTitle w))) =
              filter isHistorySave (requests w) @ [HistorySave s] \<and>
           title s \<noteq> [] \<and>
           ((session_title (session (store w)) = NEW_SESSION_TITLE \<or>
             session_title (session (store w)) = []) \<and>
            (disableSessionTitles (store w) \<or> \<not> selectedChatModel (store w) \<or> \<not> generateTitle \<or>
             (\<forall>text t. assistantResponse (session_history (session (store w))) = Some text \<and>
                text \<noteq> [] \<and>
                fst (chatDescribe env (snd (getWorkspaceDirs env (remote w))) text) =
                  Resolved (StatusSuccess (Some t)) \<longrightarrow> t = [])) \<and>
            getChatTitleFromMessage env (message first) = [] \<and>
            (\<forall>m \<in> set (allSessionMetadata (session (store w))).
               md_sessionId m \<noteq> session_id (session (store w))) \<longrightarrow>
            title s = NEW_SESSION_TITLE)"
proof -
  let ?s = "fst (currentSessionToSave env openNewSession generateTitle first w)"
  let ?w1 = "snd (send GetWorkspaceDirs (getWorkspaceDirs env) w)"
  let ?w2 = "if openNewSession then dispatch_newSession env None ?w1 else ?w1"
  have w2: "remote ?w2 = snd (getWorkspaceDirs env (remote w))"
    "allSessionMetadata (session (store ?w2)) = allSessionMetadata (session (store w))"
    by (simp_all add: send_eq dispatch_newSession_simps)
  have t: "title ?s = fst (resolveTitle env generateTitle (store w) first ?w2)"
    by (rule currentSessionToSave_title)
  have 1: "filter isHistorySave (requests (snd (saveCurrentSession env openNewSession generateTitle w))) =
      filter isHistorySave (requests w) @ [HistorySave ?s]"
    using assms by (rule saveCurrentSession_saves)
  have 2: "title ?s \<noteq> []"
    unfolding t by (rule resolveTitle_not_empty)
  have 3: "title ?s = NEW_SESSION_TITLE"
    if h: "(session_title (session (store w)) = NEW_SESSION_TITLE \<or>
             session_title (session (store w)) = []) \<and>
            (disableSessionTitles (store w) \<or> \<not> selectedChatModel (store w) \<or> \<not> generateTitle \<or>
             (\<forall>text t. assistantResponse (session_history (session (store w))) = Some text \<and>
                text \<noteq> [] \<and>
                fst (chatDescribe env (snd (getWorkspaceDirs env (remote w))) text) =
                  Resolved (StatusSuccess (Some t)) \<longrightarrow> t = [])) \<and>
            getChatTitleFromMessage env (message first) = [] \<and>
            (\<forall>m \<in> set (allSessionMetadata (session (store w))).
               md_sessionId m \<noteq> session_id (session (store w)))"
  proof -
    have d: "fst (describeTitle env generateTitle (store w) ?w2) = NEW_SESSION_TITLE"
      by (rule describeTitle_unresolved) (use h w2(1) in presburger)
    show ?thesis
      unfolding t
      by (rule resolveTitle_sentinel) (use h d w2(2) in simp_all)
  qed
  from 1 2 3 show ?thesis
    by blast
qed

theorem saveCurrentSession_title_fallback_witness:
  "session_history (session (store worldUntitled)) = [item User (js '' '')] \<and>
   session_title (session (store worldUntitled)) = NEW_SESSION_TITLE \<and>
   disableSessionTitles (store worldUntitled) \<and>
   getChatTitleFromMessage demoEnv (message (item User (js '' ''))) = [] \<and>
   allSessionMetadata (session (store worldUntitled)) = [] \<and>
   (\<exists>s. filter isHistorySave (requests (snd (saveCurrentSession demoEnv False True worldUntitled))) =
          [HistorySave s] \<and> title s = NEW_SESSION_TITLE \<and> title s \<noteq> [])"
proof -
  have h: "session_history (session (store worldUntitled)) = item User (js '' '') # []"
    by (simp add: demo_defs worldUntitled_def)
  have c: "session_title (session (store worldUntitled)) = NEW_SESSION_TITLE"
    "disableSessionTitles (store worldUntitled)"
    "getChatTitleFromMessage demoEnv (message (item User (js '' ''))) = []"
    "allSessionMetadata (session (store worldUntitled)) = []"
    "requests worldUntitled = []"
    by (simp_all add: model_defs demo_defs worldUntitled_def)
  show ?thesis
    using h c saveCurrentSession_title_fallback [OF h, of demoEnv False True]
    by auto
qed

section \<open>Deleting a session\<close>

lemma deleteLocally_other:
  "i \<noteq> session_id (session (store w)) \<Longrightarrow>
   deleteLocally env i w = dispatch (deleteSessionMetadata i) w"
  by (simp add: deleteLocally_def Let_def dispatch_simps deleteSessionMetadata_def)

lemma activateLastSession_metadata:
  "allSessionMetadata (session (store (snd (activateLastSession env r w)))) =
     allSessionMetadata (session (store w))"
  by (simp add: activateLastSession_def split_def getSession_store dispatch_newSession_simps
      split: sum.splits list.splits)

lemma refresh_metadata:
  "allSessionMetadata (session (store (snd (refreshSessionMetadata env args w)))) =
     (case fst (historyList env (remote w) args) of
        Resolved (StatusSuccess c) \<Rightarrow> c
      | _ \<Rightarrow> allSessionMetadata (session (store w)))"
  by (simp add: refreshSessionMetadata_def send_eq dispatch_simps setAllSessionMetadata_def
      setIsSessionMetadataLoading_def split: outcome.splits tagged.splits)

lemma loadLastSession_metadata:
  "allSessionMetadata (session (store (snd (loadLastSession env False w)))) =
     (case fst (historyList env (snd (getWorkspaceDirs env (remote w)))
                  \<lparr>offset = None, limit = Some 1,
                   list_workspaceDirectory =
                     firstWorkspaceDir (fst (getWorkspaceDirs env (remote w)))\<rparr>) of
        Resolved (StatusSuccess c) \<Rightarrow> c
      | _ \<Rightarrow> allSessionMetadata (session (store w)))"
  by (simp add: loadLastSession_def Let_def split_def activateLastSession_metadata
      refresh_metadata send_eq split: outcome.splits tagged.splits)

lemma deleteLocally_metadata:
  "allSessionMetadata (session (store (deleteLocally env i w))) =
     (if i = session_id (session (store w)) then
        (case fst (historyList env (snd (getWorkspaceDirs env (remote w)))
                     \<lparr>offset = None, limit = Some 1,
                      list_workspaceDirectory =
                        firstWorkspaceDir (fst (getWorkspaceDirs env (remote w)))\<rparr>) of
           Resolved (StatusSuccess c) \<Rightarrow> c
         | _ \<Rightarrow> filter (\<lambda>m. md_sessionId m \<noteq> i) (allSessionMetadata (session (store w))))
      else filter (\<lambda>m. md_sessionId m \<noteq> i) (allSessionMetadata (session (store w))))"
  by (simp add: deleteLocally_def Let_def loadLastSession_metadata dispatch_simps
      deleteSessionMetadata_def split: outcome.splits tagged.splits)

text \<open>
  C6, as amended. When the history/delete request answers with an error status,
  \<open>deleteSession\<close> fails with that error and nothing is rolled back: the store after
  the failure is the store that the local part of the thunk left, for every id. No
  metadata entry has the deleted id after the failure when the deleted id is not the
  id of the active session (the store is then the one after the optimistic removal),
  and also when it is the id of the active session and the answer to the list request
  of \<open>loadLastSession\<close> is not a success with an entry of the deleted id.
\<close>

theorem deleteSession_error_not_rolled_back:
  assumes "historyDelete env (remote (deleteLocally env i w)) i = (Resolved (StatusError msg), m')"
  shows "fst (deleteSession env i w) = Inl (Error msg) \<and>
         store (snd (deleteSession env i w)) = store (deleteLocally env i w) \<and>
         spawned (snd (deleteSession env i w)) = spawned (deleteLocally env i w) \<and>
         (i \<noteq> session_id (session (store w)) \<longrightarrow>
            store (snd (deleteSession env i w)) =
              (store w)\<lparr>session := deleteSessionMetadata i (session (store w))\<rparr>) \<and>
         (i \<noteq> session_id (session (store w)) \<or>
          (\<forall>c. fst (historyList env (snd (getWorkspaceDirs env (remote w)))
                      \<lparr>offset = None, limit = Some 1,
                       list_workspaceDirectory =
                         firstWorkspaceDir (fst (getWorkspaceDirs env (remote w)))\<rparr>) =
                 Resolved (StatusSuccess c) \<longrightarrow> i \<notin> md_sessionId ` set c) \<longrightarrow>
            i \<notin> md_sessionId ` set (allSessionMetadata
                    (session (store (snd (deleteSession env i w))))))"
proof (intro conjI impI)
  show "fst (deleteSession env i w) = Inl (Error msg)"
    using assms by (simp add: deleteSession_def send_eq)
  show s: "store (snd (deleteSession env i w)) = store (deleteLocally env i w)"
    using assms by (simp add: deleteSession_def send_eq)
  show "spawned (snd (deleteSession env i w)) = spawned (deleteLocally env i w)"
    using assms by (simp add: deleteSession_def send_eq)
  show "store (snd (deleteSession env i w)) =
      (store w)\<lparr>session := deleteSessionMetadata i (session (store w))\<rparr>"
    if "i \<noteq> session_id (session (store w))"
    using that by (simp add: s deleteLocally_other) (simp add: dispatch_def)
  show "i \<notin> md_sessionId ` set (allSessionMetadata
      (session (store (snd (deleteSession env i w)))))"
    if "i \<noteq> session_id (session (store w)) \<or>
        (\<forall>c. fst (historyList env (snd (getWorkspaceDirs env (remote w)))
                    \<lparr>offset = None, limit = Some 1,
                     list_workspaceDirectory =
                       firstWorkspaceDir (fst (getWorkspaceDirs env (remote w)))\<rparr>) =
               Resolved (StatusSuccess c) \<longrightarrow> i \<notin> md_sessionId ` set c)"
    using that
    by (auto simp: s deleteLocally_metadata split: outcome.splits tagged.splits)
qed

theorem deleteSession_error_not_rolled_back_witness:
  "js ''abc'' \<noteq> session_id (session (store worldOtherDeleteError)) \<and>
   map md_sessionId (allSessionMetadata (session (store worldOtherDeleteError))) = [js ''abc''] \<and>
   fst (deleteSession demoEnv (js ''abc'') worldOtherDeleteError) = Inl (Error (js ''denied'')) \<and>
   allSessionMetadata (session (store (snd (deleteSession demoEnv (js ''abc'')
      worldOtherDeleteError)))) = [] \<and>
   session_id (session (store worldXyzDeleteError)) = js ''abc'' \<and>
   map md_sessionId (allSessionMetadata (session (store worldXyzDeleteError))) =
     [js ''xyz'', js ''abc''] \<and>
   fst (deleteSession demoEnv (js ''abc'') worldXyzDeleteError) = Inl (Error (js ''denied'')) \<and>
   js ''abc'' \<notin> md_sessionId ` set (allSessionMetadata (session (store (snd
      (deleteSession demoEnv (js ''abc'') worldXyzDeleteError)))))"
proof -
  let ?m = "snd (historyDelete demoEnv
              (remote (deleteLocally demoEnv (js ''abc'') worldOtherDeleteError)) (js ''abc''))"
  have "fst (historyDelete demoEnv
          (remote (deleteLocally demoEnv (js ''abc'') worldOtherDeleteError)) (js ''abc'')) =
        Resolved (StatusError (js ''denied''))"
    by (simp add: model_defs demo_defs deleteLocally_def worldOtherDeleteError_def)
  then have h: "historyDelete demoEnv
      (remote (deleteLocally demoEnv (js ''abc'') worldOtherDeleteError)) (js ''abc'') =
      (Resolved (StatusError (js ''denied'')), ?m)"
    by (simp add: prod_eq_iff)
  have c: "js ''abc'' \<noteq> session_id (session (store worldOtherDeleteError))"
    "map md_sessionId (allSessionMetadata (session (store worldOtherDeleteError))) = [js ''abc'']"
    "deleteSessionMetadata (js ''abc'') (session (store worldOtherDeleteError)) =
       (session (store worldOtherDeleteError))\<lparr>allSessionMetadata := []\<rparr>"
    by (simp_all add: model_defs demo_defs worldOtherDeleteError_def)
  have "fst (deleteSession demoEnv (js ''abc'') worldOtherDeleteError) =
        Inl (Error (js ''denied'')) \<and>
      store (snd (deleteSession demoEnv (js ''abc'') worldOtherDeleteError)) =
        (store worldOtherDeleteError)\<lparr>session :=
           deleteSessionMetadata (js ''abc'') (session (store worldOtherDeleteError))\<rparr>"
    using c(1) deleteSession_error_not_rolled_back [OF h]
    by blast
  then have a: "fst (deleteSession demoEnv (js ''abc'') worldOtherDeleteError) =
        Inl (Error (js ''denied'')) \<and>
      allSessionMetadata (session (store (snd (deleteSession demoEnv (js ''abc'')
        worldOtherDeleteError)))) = []"
    by (simp add: c(3))
  let ?n = "snd (historyDelete demoEnv
              (remote (deleteLocally demoEnv (js ''abc'') worldXyzDeleteError)) (js ''abc''))"
  have "fst (historyDelete demoEnv
          (remote (deleteLocally demoEnv (js ''abc'') worldXyzDeleteError)) (js ''abc'')) =
        Resolved (StatusError (js ''denied''))"
    by (simp add: model_defs demo_defs deleteLocally_def sessionXyz_def worldXyzDeleteError_def)
  then have k: "historyDelete demoEnv
      (remote (deleteLocally demoEnv (js ''abc'') worldXyzDeleteError)) (js ''abc'') =
      (Resolved (StatusError (js ''denied'')), ?n)"
    by (simp add: prod_eq_iff)
  have d: "session_id (session (store worldXyzDeleteError)) = js ''abc''"
    "map md_sessionId (allSessionMetadata (session (store worldXyzDeleteError))) =
       [js ''xyz'', js ''abc'']"
    by (simp_all add: demo_defs sessionXyz_def worldXyzDeleteError_def)
  have l: "\<forall>c. fst (historyList demoEnv (snd (getWorkspaceDirs demoEnv (remote worldXyzDeleteError)))
                    \<lparr>offset = None, limit = Some 1,
                     list_workspaceDirectory = firstWorkspaceDir
                       (fst (getWorkspaceDirs demoEnv (remote worldXyzDeleteError)))\<rparr>) =
               Resolved (StatusSuccess c) \<longrightarrow> js ''abc'' \<notin> md_sessionId ` set c"
    by (simp add: model_defs demo_defs sessionXyz_def worldXyzDeleteError_def)
  have b: "fst (deleteSession demoEnv (js ''abc'') worldXyzDeleteError) =
        Inl (Error (js ''denied'')) \<and>
      js ''abc'' \<notin> md_sessionId ` set (allSessionMetadata (session (store (snd
        (deleteSession demoEnv (js ''abc'') worldXyzDeleteError)))))"
    using l deleteSession_error_not_rolled_back [OF k]
    by blast
  show ?thesis
    using a b c d by simp
qed

text \<open>
  C6 as stated fails when the deleted session is the active one and is the one that
  the list request of \<open>loadLastSession\<close> returns: the refresh replaces the metadata
  by that list before the delete request is answered with an error status.
\<close>

theorem deleteSession_error_not_rolled_back_counterexample:
  "session_id (session (store worldDeleteError)) = js ''abc'' \<and>
   fst (historyDelete demoEnv
          (remote (deleteLocally demoEnv (js ''abc'') worldDeleteError)) (js ''abc'')) =
     Resolved (StatusError (js ''denied'')) \<and>
   fst (deleteSession demoEnv (js ''abc'') worldDeleteError) = Inl (Error (js ''denied'')) \<and>
   map md_sessionId (allSessionMetadata (session (store (snd (deleteSession demoEnv (js ''abc'')
      worldDeleteError))))) = [js ''abc'']"
  by (simp add: model_defs demo_defs deleteLocally_def deleteSession_def worldDeleteError_def)

text \<open>
  C2 fails on the code. The session abc is active and saved remotely. \<open>deleteSession\<close>
  runs \<open>loadLastSession\<close> before the delete request, so the list request still finds
  abc, and abc is fetched and activated again. The thunk succeeds, the remote side no
  longer has the session, and the active id is the deleted id, also after the spawned
  refresh has run.
\<close>

theorem deleteSession_keeps_deleted_session_active:
  "session_id (session (store worldAbc)) = js ''abc'' \<and>
   map sessionId (saved (remote worldAbc)) = [js ''abc''] \<and>
   fst (deleteSession demoEnv (js ''abc'') worldAbc) = Inr () \<and>
   saved (remote (snd (deleteSession demoEnv (js ''abc'') worldAbc))) = [] \<and>
   session_id (session (store (snd (deleteSession demoEnv (js ''abc'') worldAbc)))) = js ''abc'' \<and>
   session_id (session (store (runSpawned demoEnv
     (snd (deleteSession demoEnv (js ''abc'') worldAbc))))) = js ''abc''"
  by (simp add: model_defs demo_defs deleteLocally_def deleteSession_def runSpawned_def)

section \<open>Failures that are not propagated\<close>

lemma updateSession_fails_iff:
  "fst (updateSession env s w) = Inl e \<longleftrightarrow> fst (historySave env (remote w) s) = Rejected e"
  by (simp add: updateSession_def Let_def send_eq split_def dispatch_simps split: outcome.splits)

text \<open>
  C1 fails on the code. The history/save request answers with an error status, and
  \<open>updateSession\<close> succeeds: it awaits the request and never looks at its value.
\<close>

theorem updateSession_ignores_error_status:
  "fst (historySave demoEnv (remote worldSaveError) sessionAbc) =
     Resolved (StatusError (js ''disk full'')) \<and>
   fst (updateSession demoEnv sessionAbc worldSaveError) = Inr ()"
  by (simp add: model_defs demo_defs worldSaveError_def)

text \<open>
  C5 fails on the code. The active session has an id and a history, the save flag is
  set, and the save-current cycle fails because the history/save request is rejected;
  \<open>loadLastSession\<close> succeeds all the same, since it drops the action of the cycle.
\<close>

theorem loadLastSession_drops_save_failure:
  "session_id (session (store worldOffline)) \<noteq> [] \<and>
   fst (saveCurrentSession demoEnv False True worldOffline) = Inl (Error (js ''offline'')) \<and>
   fst (loadLastSession demoEnv True worldOffline) = Inr ()"
  by (simp add: model_defs demo_defs)

end
